theory Spec2Isabelle
  imports Main "HOL-Library.Word"
begin

section \<open>On-demand upstream supervisor: shallow embedding\<close>

text \<open>
  The development embeds \<^verbatim>\<open>process.go\<close> (the type \<^verbatim>\<open>UpstreamProcess\<close> with
  \<^verbatim>\<open>Start\<close>, \<^verbatim>\<open>Stop\<close>, \<^verbatim>\<open>getFormattedCommand\<close>, \<^verbatim>\<open>getAvailablePort\<close>) and the
  request path of \<^verbatim>\<open>ondemand_upstreams.go\<close> (\<^verbatim>\<open>Validate\<close>, \<^verbatim>\<open>GetUpstreams\<close>,
  \<^verbatim>\<open>Cleanup\<close>).

  Conventions.
  \<^item> Every method takes the receiver and returns the updated receiver. A method body runs
    under the mutex \<^verbatim>\<open>u.mu\<close>, so it is one atomic transition of the model.
  \<^item> A call through a nil pointer panics. Nothing in the code recovers, and the panics met
    here are outside the request handlers, so a panic ends the program: a function that
    can panic returns \<open>Inl\<close> of the panic, and \<open>Inr\<close> of its result otherwise.
  \<^item> What the operating system answers during a call (clock readings, the result of
    binding a socket, of \<^verbatim>\<open>cmd.Start\<close>, of \<^verbatim>\<open>Process.Signal\<close>, of \<^verbatim>\<open>cmd.Wait\<close>) is
    read from a record \<open>world\<close> given to the call.
  \<^item> What a call does to the outside is returned as a list of \<open>effect\<close>s, in program
    order. Log lines are not recorded.
  \<^item> \<^verbatim>\<open>time.Time\<close> and \<^verbatim>\<open>time.Duration\<close> are integers counting nanoseconds; Go's
    \<^verbatim>\<open>int\<close> port is an \<open>int\<close> (no arithmetic is done on it).
\<close>

subsection \<open>Go library functions used by the code\<close>

type_synonym time = int
type_synonym duration = int

datatype go_error = Err string

text \<open>\<^verbatim>\<open>strconv.Itoa\<close>: decimal digits, most significant first, \<^verbatim>\<open>-\<close> before a negative number.\<close>

definition digit_char :: "nat \<Rightarrow> char" where
  "digit_char d = ''0123456789'' ! d"

fun digits :: "nat \<Rightarrow> string" where
  "digits n = (if n < 10 then [digit_char n] else digits (n div 10) @ [digit_char (n mod 10)])"

declare digits.simps [simp del]

definition Itoa :: "int \<Rightarrow> string" where
  "Itoa i = (if i < 0 then CHR ''-'' # digits (nat (- i)) else digits (nat i))"

text \<open>\<^verbatim>\<open>net.JoinHostPort\<close>: a host with a colon in it is bracketed.\<close>

definition JoinHostPort :: "string \<Rightarrow> string \<Rightarrow> string" where
  "JoinHostPort host p =
     (if CHR '':'' \<in> set host then ''['' @ host @ '']:'' @ p else host @ '':'' @ p)"

text \<open>\<^verbatim>\<open>strings.Contains(s, substr)\<close>: \<open>substr\<close> occurs in \<open>s\<close> as a contiguous block.\<close>

definition has_prefix :: "string \<Rightarrow> string \<Rightarrow> bool" where
  "has_prefix s p = (take (length p) s = p)"

fun Contains :: "string \<Rightarrow> string \<Rightarrow> bool" where
  "Contains [] sub = (sub = [])"
| "Contains (c # s) sub = (has_prefix (c # s) sub \<or> Contains s sub)"

text \<open>
  \<^verbatim>\<open>fmt.Sprintf(format, a)\<close> with the single operand \<open>a\<close> of type \<^verbatim>\<open>int\<close>, as the
  package \<^verbatim>\<open>fmt\<close> documents it, for the formats whose every percent sign is followed by
  \<^verbatim>\<open>d\<close> or by \<^verbatim>\<open>%\<close>, or ends the format:
  \<^item> \<^verbatim>\<open>%d\<close> prints the operand in base 10 and consumes it; a \<^verbatim>\<open>%d\<close> met when the operand
    has been consumed prints \<^verbatim>\<open>%!d(MISSING)\<close>;
  \<^item> \<^verbatim>\<open>%%\<close> prints a percent sign and consumes nothing;
  \<^item> a percent sign that ends the format prints \<^verbatim>\<open>%!(NOVERB)\<close>;
  \<^item> an operand that no verb consumed is reported at the end as \<^verbatim>\<open>%!(EXTRA int=\<close>\<open>a\<close>\<^verbatim>\<open>)\<close>.
  The flag \<open>used\<close> says that the operand has been consumed. On any other directive
  (flags, widths, other verbs) \<open>doPrintf\<close> gives \<open>None\<close>, and \<open>Sprintf\<close> hands the
  whole call to the parameter \<open>other\<close>, which stands for the rest of the library.
\<close>

fun doPrintf :: "string \<Rightarrow> int \<Rightarrow> bool \<Rightarrow> string option" where
  "doPrintf [] a used = Some (if used then [] else ''%!(EXTRA int='' @ Itoa a @ '')'')"
| "doPrintf [c] a used =
     (if c = CHR ''%'' then map_option ((@) ''%!(NOVERB)'') (doPrintf [] a used)
      else map_option ((#) c) (doPrintf [] a used))"
| "doPrintf (c # v # format) a used =
     (if c \<noteq> CHR ''%'' then map_option ((#) c) (doPrintf (v # format) a used)
      else if v = CHR ''%'' then map_option ((#) CHR ''%'') (doPrintf format a used)
      else if v = CHR ''d'' then
        map_option ((@) (if used then ''%!d(MISSING)'' else Itoa a)) (doPrintf format a True)
      else None)"

type_synonym fmt_rest = "string \<Rightarrow> int \<Rightarrow> string"

definition Sprintf :: "fmt_rest \<Rightarrow> string \<Rightarrow> int \<Rightarrow> string" where
  "Sprintf other format a = (case doPrintf format a False of Some s \<Rightarrow> s | None \<Rightarrow> other format a)"

subsection \<open>The supervised process: \<^verbatim>\<open>process.go\<close>\<close>

text \<open>
  \<^verbatim>\<open>exec.Cmd\<close> as the code fills it: the argument vector, the working directory and the
  environment entries. Standard output and error always go to the parent's streams.
  \<^verbatim>\<open>Process\<close> is nil in the value \<^verbatim>\<open>exec.Command\<close> returns and stays nil when \<^verbatim>\<open>cmd.Start()\<close>
  fails; a successful \<^verbatim>\<open>cmd.Start()\<close> sets it to the started process, here its process id.
\<close>

type_synonym pid = nat

record Cmd =
  Args :: "string list"
  Dir :: string
  Env :: "string list"
  Process :: "pid option"

datatype panic = NilPointerDereference

text \<open>
  Where the goroutine that \<^verbatim>\<open>Stop\<close> launches stands: in its \<^verbatim>\<open>time.Sleep\<close>; past its test
  \<^verbatim>\<open>u.IsRunning()\<close>, which it found true, and before \<^verbatim>\<open>u.cmd.Process.Kill()\<close>; or at its end.
\<close>

datatype grace_pc = Sleeping | Checked | Finished

record UpstreamProcess =
  cmd :: "Cmd option"
  command :: string
  port :: int
  dir :: string
  env :: "(string \<times> string) list"
  startupDelay :: duration
  idleTimeout :: duration
  terminationGracePeriod :: duration
  lastActivity :: time

text \<open>The answers of the operating system during one call.\<close>

record world =
  now_created :: time \<comment> \<open>\<^verbatim>\<open>time.Now()\<close> in \<^verbatim>\<open>NewUpstreamProcess\<close>\<close>
  now_started :: time \<comment> \<open>\<^verbatim>\<open>time.Now()\<close> in the \<^verbatim>\<open>LogActivity\<close> of \<^verbatim>\<open>Start\<close>\<close>
  now :: time \<comment> \<open>\<^verbatim>\<open>time.Now()\<close> in the caller's \<^verbatim>\<open>LogActivity\<close> and in a monitor tick\<close>
  resolve_result :: "go_error option" \<comment> \<open>\<^verbatim>\<open>net.ResolveTCPAddr("tcp", "localhost:0")\<close>\<close>
  listen_result :: "go_error + 16 word" \<comment> \<open>\<^verbatim>\<open>net.ListenTCP\<close>: the port the system bound\<close>
  start_result :: "go_error option" \<comment> \<open>\<^verbatim>\<open>cmd.Start()\<close>\<close>
  new_pid :: pid \<comment> \<open>the process that a successful \<^verbatim>\<open>cmd.Start()\<close> starts\<close>
  signal_result :: "go_error option" \<comment> \<open>\<^verbatim>\<open>cmd.Process.Signal(os.Interrupt)\<close>\<close>
  wait_result :: "go_error option" \<comment> \<open>\<^verbatim>\<open>cmd.Wait()\<close>\<close>
  grace_progress :: grace_pc
    \<comment> \<open>how far the goroutine launched by \<^verbatim>\<open>Stop\<close> got before \<^verbatim>\<open>Stop\<close> cleared the handle\<close>

datatype effect =
    AllocPort \<comment> \<open>\<^verbatim>\<open>getAvailablePort\<close> was called\<close>
  | Spawn Cmd \<comment> \<open>\<^verbatim>\<open>cmd.Start()\<close> was called on this command\<close>
  | Sleep duration \<comment> \<open>\<^verbatim>\<open>time.Sleep\<close> on the calling thread\<close>
  | GoIdleMonitor \<comment> \<open>the idle-timeout goroutine was launched\<close>
  | SignalInterrupt \<comment> \<open>\<^verbatim>\<open>Process.Signal(os.Interrupt)\<close>\<close>
  | GoGraceKill duration \<comment> \<open>the goroutine that kills after the grace period was launched\<close>
  | Wait "go_error option" \<comment> \<open>\<^verbatim>\<open>cmd.Wait()\<close> returned this\<close>
  | Kill \<comment> \<open>\<^verbatim>\<open>Process.Kill()\<close> on the calling thread\<close>
  | GraceKill pid \<comment> \<open>\<^verbatim>\<open>Process.Kill()\<close> by a grace-period goroutine, on this process\<close>

definition NewUpstreamProcess ::
  "string \<Rightarrow> int \<Rightarrow> string \<Rightarrow> (string \<times> string) list \<Rightarrow> duration \<Rightarrow> duration \<Rightarrow> duration \<Rightarrow> time
     \<Rightarrow> UpstreamProcess" where
  "NewUpstreamProcess command' port' dir' env' startup_delay idle_timeout termination_grace_period t =
     \<lparr>cmd = None, command = command', port = port', dir = dir', env = env',
      startupDelay = startup_delay, idleTimeout = idle_timeout,
      terminationGracePeriod = termination_grace_period, lastActivity = t\<rparr>"

definition GetPort :: "UpstreamProcess \<Rightarrow> int" where
  "GetPort u = port u"

text \<open>\<^verbatim>\<open>IsRunning\<close> is the presence of the handle: \<^verbatim>\<open>return u.cmd != nil\<close>.\<close>

definition IsRunning :: "UpstreamProcess \<Rightarrow> bool" where
  "IsRunning u = (cmd u \<noteq> None)"

definition LogActivity :: "time \<Rightarrow> UpstreamProcess \<Rightarrow> UpstreamProcess" where
  "LogActivity t u = u\<lparr>lastActivity := t\<rparr>"

definition getFormattedCommand :: "fmt_rest \<Rightarrow> UpstreamProcess \<Rightarrow> string" where
  "getFormattedCommand other u =
     (if Contains (command u) ''%d'' then Sprintf other (command u) (port u) else command u)"

text \<open>
  \<^verbatim>\<open>getAvailablePort\<close> returns the pair \<^verbatim>\<open>(port, err)\<close>, with port 0 beside an error. The
  port of a bound TCP socket is a 16-bit number.
\<close>

definition getAvailablePort :: "world \<Rightarrow> int \<times> go_error option" where
  "getAvailablePort w =
     (case resolve_result w of
        Some e \<Rightarrow> (0, Some e)
      | None \<Rightarrow>
          (case listen_result w of
             Inl e \<Rightarrow> (0, Some e)
           | Inr p \<Rightarrow> (uint p, None)))"

text \<open>
  The command that \<^verbatim>\<open>Start\<close> builds: \<^verbatim>\<open>sh -c c\<close> in \<^verbatim>\<open>u.dir\<close> with one entry \<^verbatim>\<open>k=v\<close> per pair,
  not started yet.
\<close>

definition exec_Command :: "string \<Rightarrow> UpstreamProcess \<Rightarrow> Cmd" where
  "exec_Command c u =
     \<lparr>Args = [''sh'', ''-c'', c], Dir = dir u, Env = map (\<lambda>(k, v). k @ ''='' @ v) (env u),
      Process = None\<rparr>"

text \<open>
  \<^verbatim>\<open>Start\<close>, in the order of the source. The result is the returned error, the receiver
  afterwards, and the effects. \<open>Start_spawn\<close> is the part of the body from the comment
  \<^verbatim>\<open>Create the exec command\<close> to the end: the assignment of \<^verbatim>\<open>u.cmd\<close>, \<^verbatim>\<open>cmd.Start()\<close> and
  the return of its error (the handle stays assigned, with no process), the startup delay,
  \<^verbatim>\<open>LogActivity\<close>, the launch of the monitor; \<open>fx\<close> holds the effects so far. \<open>Start\<close> is
  the part before it: the check of \<^verbatim>\<open>IsRunning\<close>, and the port when it is \<open>- 1\<close>.
\<close>

definition Start_spawn ::
  "fmt_rest \<Rightarrow> world \<Rightarrow> UpstreamProcess \<Rightarrow> effect list
     \<Rightarrow> go_error option \<times> UpstreamProcess \<times> effect list" where
  "Start_spawn other w u fx =
     (let c = getFormattedCommand other u;
          h = exec_Command c u;
          u' = u\<lparr>cmd := Some h\<rparr>;
          fx' = fx @ [Spawn h]
      in (case start_result w of
            Some e \<Rightarrow> (Some e, u', fx')
          | None \<Rightarrow>
              (None, LogActivity (now_started w) (u'\<lparr>cmd := Some (h\<lparr>Process := Some (new_pid w)\<rparr>)\<rparr>),
               fx' @ (if startupDelay u' > 0 then [Sleep (startupDelay u')] else [])
                   @ [GoIdleMonitor])))"

definition Start ::
  "fmt_rest \<Rightarrow> world \<Rightarrow> UpstreamProcess \<Rightarrow> go_error option \<times> UpstreamProcess \<times> effect list" where
  "Start other w u =
     (if IsRunning u then (None, u, [])
      else if port u = - 1 then
        (case getAvailablePort w of
           (p, Some e) \<Rightarrow> (Some e, u, [AllocPort])
         | (p, None) \<Rightarrow> Start_spawn other w (u\<lparr>port := p\<rparr>) [AllocPort])
      else Start_spawn other w u [])"

text \<open>
  \<^verbatim>\<open>Stop\<close>: nothing when the handle is absent. With a handle that has no process (the one a
  failed \<^verbatim>\<open>cmd.Start()\<close> leaves), \<^verbatim>\<open>u.cmd.Process.Signal\<close> is a call through a nil pointer.
  When the signal is delivered: the grace-period goroutine is launched, \<^verbatim>\<open>cmd.Wait()\<close> is
  called and its result dropped, the handle is still present so \<^verbatim>\<open>Kill\<close> is called, and the
  handle is cleared. While \<^verbatim>\<open>Stop\<close> waits, the goroutine it launched runs without the mutex:
  \<open>grace_progress\<close> says how far it got before the handle was cleared, and when it got to
  its end it has killed the process that \<^verbatim>\<open>Stop\<close> is waiting for. When the signal is not
  delivered: the \<^verbatim>\<open>else\<close> branch logs and returns.
\<close>

definition Stop :: "world \<Rightarrow> UpstreamProcess \<Rightarrow> panic + UpstreamProcess \<times> effect list" where
  "Stop w u =
     (case cmd u of
        None \<Rightarrow> Inr (u, [])
      | Some h \<Rightarrow>
          (case Process h of
             None \<Rightarrow> Inl NilPointerDereference
           | Some p \<Rightarrow>
               (case signal_result w of
                  None \<Rightarrow>
                    Inr (u\<lparr>cmd := None\<rparr>,
                         [SignalInterrupt, GoGraceKill (terminationGracePeriod u)]
                           @ (if grace_progress w = Finished then [GraceKill p] else [])
                           @ [Wait (wait_result w)]
                           @ (if IsRunning u then [Kill] else []))
                | Some e \<Rightarrow> Inr (u, [SignalInterrupt]))))"

text \<open>
  The body of the goroutine that \<^verbatim>\<open>Stop\<close> launches, after its \<^verbatim>\<open>time.Sleep\<close>, in its two
  reads of \<^verbatim>\<open>u.cmd\<close>. Neither is under the mutex, so the record may have changed between
  them. \<open>grace_check\<close> is the test \<^verbatim>\<open>u.IsRunning()\<close>; \<open>grace_kill\<close> is
  \<^verbatim>\<open>u.cmd.Process.Kill()\<close> on the handle the record holds by then: a call through a nil
  pointer when the handle is gone or has no process, a kill of that handle's process
  otherwise.
\<close>

definition grace_check :: "UpstreamProcess \<Rightarrow> grace_pc" where
  "grace_check u = (if IsRunning u then Checked else Finished)"

definition grace_kill :: "UpstreamProcess \<Rightarrow> panic + effect list" where
  "grace_kill u =
     (case cmd u of
        None \<Rightarrow> Inl NilPointerDereference
      | Some h \<Rightarrow>
          (case Process h of
             None \<Rightarrow> Inl NilPointerDereference
           | Some p \<Rightarrow> Inr [GraceKill p]))"

text \<open>
  One pass through the body of the loop of the idle-timeout goroutine, after its
  \<^verbatim>\<open>time.Sleep(time.Second)\<close>: \<^verbatim>\<open>continue\<close> while \<^verbatim>\<open>lastActivity.Add(idleTimeout)\<close> is after
  \<^verbatim>\<open>time.Now()\<close>, otherwise \<^verbatim>\<open>u.Stop()\<close> and \<^verbatim>\<open>break\<close>.
\<close>

datatype loop = Continue | Break

definition idle_tick ::
  "world \<Rightarrow> UpstreamProcess \<Rightarrow> panic + loop \<times> UpstreamProcess \<times> effect list" where
  "idle_tick w u =
     (if lastActivity u + idleTimeout u > now w then Inr (Continue, u, [])
      else (case Stop w u of
              Inl p \<Rightarrow> Inl p
            | Inr (u', fx) \<Rightarrow> Inr (Break, u', fx)))"

subsection \<open>The module: \<^verbatim>\<open>ondemand_upstreams.go\<close>\<close>

record OndemandUpstreams =
  Command :: string
  StartupDelay :: duration
  Port :: int
  IdleTimeout :: duration
  upstreamProcess :: "UpstreamProcess option"

record Upstream =
  Dial :: string

definition Validate :: "OndemandUpstreams \<Rightarrow> go_error option \<times> OndemandUpstreams" where
  "Validate m =
     (if Command m = [] then (Some (Err ''command is required''), m)
      else
        (let m1 = (if IdleTimeout m = 0 then m\<lparr>IdleTimeout := 300 * 1000000000\<rparr> else m);
             m2 = (if Port m1 = 0 then m1\<lparr>Port := - 1\<rparr> else m1)
         in (None, m2)))"

text \<open>
  \<^verbatim>\<open>GetUpstreams\<close> creates the process record on first use, calls \<^verbatim>\<open>Start\<close> and drops its
  error, and answers from \<^verbatim>\<open>IsRunning\<close> alone. The source passes four arguments to the
  seven-parameter \<^verbatim>\<open>NewUpstreamProcess\<close> (command, port, startup delay, idle timeout); the
  three it leaves out (directory, environment, grace period) are Go's zero values here.
\<close>

definition GetUpstreams ::
  "fmt_rest \<Rightarrow> world \<Rightarrow> OndemandUpstreams
     \<Rightarrow> (go_error + Upstream list) \<times> OndemandUpstreams \<times> effect list" where
  "GetUpstreams other w m =
     (let u0 = (case upstreamProcess m of
                  None \<Rightarrow> NewUpstreamProcess (Command m) (Port m) [] [] (StartupDelay m)
                            (IdleTimeout m) 0 (now_created w)
                | Some u \<Rightarrow> u);
          (err, u1, fx) = Start other w u0
      in if IsRunning u1 then
           (Inr [\<lparr>Dial = JoinHostPort ''localhost'' (Itoa (GetPort u1))\<rparr>],
            m\<lparr>upstreamProcess := Some (LogActivity (now w) u1)\<rparr>, fx)
         else (Inl (Err ''no upstreams available''), m\<lparr>upstreamProcess := Some u1\<rparr>, fx))"

definition Cleanup ::
  "world \<Rightarrow> OndemandUpstreams \<Rightarrow> panic + go_error option \<times> OndemandUpstreams \<times> effect list" where
  "Cleanup w m =
     (case upstreamProcess m of
        None \<Rightarrow> Inr (None, m, [])
      | Some u \<Rightarrow>
          if IsRunning u then
            (case Stop w u of
               Inl p \<Rightarrow> Inl p
             | Inr (u', fx) \<Rightarrow> Inr (None, m\<lparr>upstreamProcess := Some u'\<rparr>, fx))
          else Inr (None, m, []))"

subsection \<open>The module with its goroutines\<close>

text \<open>
  The host's requests, the host's \<^verbatim>\<open>Cleanup\<close>, the ticks of the idle-timeout goroutines and
  the steps of the grace-period goroutines interleave. The state holds the module, one
  entry per idle-timeout goroutine that \<^verbatim>\<open>Start\<close> has launched (whether it is still in its
  loop, and how many times it has called \<^verbatim>\<open>Stop\<close>), one entry per grace-period goroutine
  that \<^verbatim>\<open>Stop\<close> has launched (where it stands), whether the program has ended in a panic,
  and the effects so far. Every goroutine closes over the one process record of the
  module.

  \<open>Tick i w\<close> is the loop body of idle-timeout goroutine \<open>i\<close> run once; a goroutine that
  has left its loop ticks no more. \<open>Grace j\<close> is the next read of \<^verbatim>\<open>u.cmd\<close> by grace-period
  goroutine \<open>j\<close>: its test of \<^verbatim>\<open>IsRunning\<close> when it sleeps, its \<^verbatim>\<open>u.cmd.Process.Kill()\<close> when
  it has made the test. Both reads see the record as it is when they happen, which may be
  after \<^verbatim>\<open>Stop\<close> has cleared the handle, or after a later \<^verbatim>\<open>Start\<close> has put another one
  there. A program that has panicked takes no further step.

  Each event is one transition. In the source only the bodies of \<^verbatim>\<open>Start\<close> and \<^verbatim>\<open>Stop\<close>
  hold the mutex: \<^verbatim>\<open>GetUpstreams\<close> reads \<^verbatim>\<open>IsRunning\<close> and writes \<^verbatim>\<open>lastActivity\<close> after
  \<^verbatim>\<open>Start\<close> has released it, and a tick reads \<^verbatim>\<open>lastActivity\<close> before \<^verbatim>\<open>Stop\<close> takes it. The
  runs of this model are the interleavings in which a request or a tick is not cut in two
  by another thread, and in which a grace-period goroutine reads the record between
  transitions, or during the wait of the \<^verbatim>\<open>Stop\<close> that launched it (\<open>grace_progress\<close>); a
  read that falls inside \<^verbatim>\<open>Start\<close>, between the assignment of \<^verbatim>\<open>u.cmd\<close> and the return of
  \<^verbatim>\<open>cmd.Start()\<close>, sees the handle without a process, as after a failed spawn.
\<close>

record goroutine =
  in_loop :: bool
  stop_calls :: nat

record system =
  plugin :: OndemandUpstreams
  monitors :: "goroutine list"
  graces :: "grace_pc list"
  crashed :: bool
  effects :: "effect list"

datatype event = Request world | Shutdown world | Tick nat world | Grace nat

definition initial :: "OndemandUpstreams \<Rightarrow> system" where
  "initial m = \<lparr>plugin = m, monitors = [], graces = [], crashed = False, effects = []\<rparr>"

fun is_GoGraceKill :: "effect \<Rightarrow> bool" where
  "is_GoGraceKill (GoGraceKill d) = True"
| "is_GoGraceKill e = False"

text \<open>The grace-period goroutine that the effects \<open>fx\<close> of a call launched, if any.\<close>

definition launched_grace :: "world \<Rightarrow> effect list \<Rightarrow> grace_pc list" where
  "launched_grace w fx = (if list_ex is_GoGraceKill fx then [grace_progress w] else [])"

definition step :: "fmt_rest \<Rightarrow> event \<Rightarrow> system \<Rightarrow> system" where
  "step other ev s =
     (if crashed s then s
      else
        (case ev of
           Request w \<Rightarrow>
             (let (r, m', fx) = GetUpstreams other w (plugin s)
              in s\<lparr>plugin := m',
                   monitors := monitors s @
                     (if GoIdleMonitor \<in> set fx then [\<lparr>in_loop = True, stop_calls = 0\<rparr>] else []),
                   effects := effects s @ fx\<rparr>)
         | Shutdown w \<Rightarrow>
             (case Cleanup w (plugin s) of
                Inl p \<Rightarrow> s\<lparr>crashed := True\<rparr>
              | Inr (r, m', fx) \<Rightarrow>
                  s\<lparr>plugin := m', graces := graces s @ launched_grace w fx,
                    effects := effects s @ fx\<rparr>)
         | Tick i w \<Rightarrow>
             (if i < length (monitors s) \<and> in_loop (monitors s ! i) then
                (case upstreamProcess (plugin s) of
                   None \<Rightarrow> s
                 | Some u \<Rightarrow>
                     (case idle_tick w u of
                        Inl p \<Rightarrow>
                          s\<lparr>monitors := (monitors s)
                              [i := \<lparr>in_loop = False,
                                     stop_calls = Suc (stop_calls (monitors s ! i))\<rparr>],
                            crashed := True\<rparr>
                      | Inr (Continue, u', fx) \<Rightarrow> s
                      | Inr (Break, u', fx) \<Rightarrow>
                          s\<lparr>plugin := (plugin s)\<lparr>upstreamProcess := Some u'\<rparr>,
                            monitors := (monitors s)
                              [i := \<lparr>in_loop = False,
                                     stop_calls = Suc (stop_calls (monitors s ! i))\<rparr>],
                            graces := graces s @ launched_grace w fx,
                            effects := effects s @ fx\<rparr>))
              else s)
         | Grace j \<Rightarrow>
             (if j < length (graces s) then
                (case upstreamProcess (plugin s) of
                   None \<Rightarrow> s
                 | Some u \<Rightarrow>
                     (case graces s ! j of
                        Sleeping \<Rightarrow> s\<lparr>graces := (graces s)[j := grace_check u]\<rparr>
                      | Checked \<Rightarrow>
                          (case grace_kill u of
                             Inl p \<Rightarrow> s\<lparr>crashed := True\<rparr>
                           | Inr fx \<Rightarrow>
                               s\<lparr>graces := (graces s)[j := Finished],
                                 effects := effects s @ fx\<rparr>)
                      | Finished \<Rightarrow> s))
              else s)))"

fun run :: "fmt_rest \<Rightarrow> event list \<Rightarrow> system \<Rightarrow> system" where
  "run other [] s = s"
| "run other (ev # evs) s = run other evs (step other ev s)"

definition running :: "system \<Rightarrow> bool" where
  "running s = (case upstreamProcess (plugin s) of None \<Rightarrow> False | Some u \<Rightarrow> IsRunning u)"

text \<open>
  A goroutine that is still in its loop has not called \<^verbatim>\<open>Stop\<close>; one that has left it has
  called \<^verbatim>\<open>Stop\<close> once.
\<close>

definition one_shot :: "goroutine \<Rightarrow> bool" where
  "one_shot g = (if in_loop g then stop_calls g = 0 else stop_calls g = 1)"

text \<open>
  The port the module works with: the configured one while no process record exists, the
  record's afterwards.
\<close>

definition port_in_use :: "OndemandUpstreams \<Rightarrow> int" where
  "port_in_use m = (case upstreamProcess m of None \<Rightarrow> Port m | Some u \<Rightarrow> port u)"

subsection \<open>What the specification asks of the command line\<close>

text \<open>
  The specification's reading of the substitution, to compare \<open>getFormattedCommand\<close> with:
  every occurrence of the placeholder \<^verbatim>\<open>%d\<close> in the template is replaced by the text \<open>p\<close>.
\<close>

fun replace_every_placeholder :: "string \<Rightarrow> string \<Rightarrow> string" where
  "replace_every_placeholder [] p = []"
| "replace_every_placeholder [c] p = [c]"
| "replace_every_placeholder (c # v # s) p =
     (if c = CHR ''%'' \<and> v = CHR ''d'' then p @ replace_every_placeholder s p
      else c # replace_every_placeholder (v # s) p)"

subsection \<open>Sample inputs\<close>

text \<open>
  A world in which every system call succeeds, the clock reads one second once the
  startup delay is over, and a grace-period goroutine is still asleep when its \<^verbatim>\<open>Stop\<close>
  returns; a configuration with a fixed port, one with automatic port assignment, and one
  without a placeholder; the process records they lead to (stopped, with the handle of a
  failed spawn, running).
  \<open>no_other\<close> stands in for the part of \<^verbatim>\<open>fmt\<close> outside \<open>doPrintf\<close>; the sample
  templates never reach it.
\<close>

definition no_other :: fmt_rest where
  "no_other format a = []"

definition one_second :: duration where
  "one_second = 1000000000"

definition calm :: world where
  "calm = \<lparr>now_created = 0, now_started = one_second, now = one_second, resolve_result = None,
           listen_result = Inr 40000, start_result = None, new_pid = 4242,
           signal_result = None, wait_result = None, grace_progress = Sleeping\<rparr>"

definition spawn_fails :: world where
  "spawn_fails = calm\<lparr>start_result := Some (Err ''exec: not found'')\<rparr>"

definition signal_fails :: world where
  "signal_fails = calm\<lparr>signal_result := Some (Err ''os: process already finished'')\<rparr>"

definition wait_fails :: world where
  "wait_fails = calm\<lparr>wait_result := Some (Err ''signal: interrupt'')\<rparr>"

definition wait_fails_racing :: world where
  "wait_fails_racing = wait_fails\<lparr>grace_progress := Checked\<rparr>"

definition fixed_config :: OndemandUpstreams where
  "fixed_config = \<lparr>Command = ''serve --http :%d'', StartupDelay = one_second, Port = 8080,
                    IdleTimeout = 300 * one_second, upstreamProcess = None\<rparr>"

definition auto_config :: OndemandUpstreams where
  "auto_config = fixed_config\<lparr>Port := - 1\<rparr>"

definition plain_config :: OndemandUpstreams where
  "plain_config = fixed_config\<lparr>Command := ''serve'', Port := 9999\<rparr>"

definition never_idle_config :: OndemandUpstreams where
  "never_idle_config = fixed_config\<lparr>IdleTimeout := - 1\<rparr>"

definition sh8080 :: Cmd where
  "sh8080 = \<lparr>Args = [''sh'', ''-c'', ''serve --http :8080''], Dir = [], Env = [], Process = None\<rparr>"

definition stopped_process :: UpstreamProcess where
  "stopped_process =
     NewUpstreamProcess ''serve --http :%d'' 8080 [] [] one_second (300 * one_second) 0 0"

definition failed_process :: UpstreamProcess where
  "failed_process = stopped_process\<lparr>cmd := Some sh8080\<rparr>"

definition running_process :: UpstreamProcess where
  "running_process = stopped_process\<lparr>cmd := Some (sh8080\<lparr>Process := Some 4242\<rparr>)\<rparr>"

definition sh40000 :: Cmd where
  "sh40000 = \<lparr>Args = [''sh'', ''-c'', ''serve --http :40000''], Dir = [], Env = [], Process = None\<rparr>"

definition auto_started :: UpstreamProcess where
  "auto_started =
     stopped_process\<lparr>port := 40000, lastActivity := one_second,
       cmd := Some (sh40000\<lparr>Process := Some 4242\<rparr>)\<rparr>"

lemmas model_defs =
  GetUpstreams_def Cleanup_def Validate_def Start_def Start_spawn_def Stop_def idle_tick_def
  NewUpstreamProcess_def IsRunning_def GetPort_def LogActivity_def getFormattedCommand_def
  getAvailablePort_def exec_Command_def Sprintf_def has_prefix_def JoinHostPort_def Itoa_def
  digits.simps digit_char_def step_def initial_def running_def Let_def grace_check_def
  grace_kill_def launched_grace_def

lemmas sample_defs =
  no_other_def calm_def spawn_fails_def signal_fails_def wait_fails_def wait_fails_racing_def
  one_second_def fixed_config_def auto_config_def plain_config_def never_idle_config_def
  sh8080_def sh40000_def stopped_process_def failed_process_def running_process_def
  auto_started_def

section \<open>Properties\<close>

subsection \<open>Strings\<close>

lemma has_prefix_append: "has_prefix (sub @ post) sub"
  by (simp add: has_prefix_def)

lemma Contains_prefix: "has_prefix s sub \<Longrightarrow> Contains s sub"
  by (cases s) (auto simp: has_prefix_def)

lemma Contains_append: "Contains (pre @ sub @ post) sub"
  by (induction pre) (simp_all add: Contains_prefix has_prefix_append)

text \<open>\<open>Contains\<close> is the occurrence of a contiguous block.\<close>

lemma has_prefix_split: "has_prefix s sub \<Longrightarrow> s = sub @ drop (length sub) s"
  by (metis append_take_drop_id has_prefix_def)

lemma Contains_split: "Contains s sub \<Longrightarrow> \<exists>pre post. s = pre @ sub @ post"
proof (induction s)
  case Nil
  then show ?case by simp
next
  case (Cons c s)
  show ?case
  proof (cases "has_prefix (c # s) sub")
    case True
    from has_prefix_split [OF this] have "c # s = [] @ sub @ drop (length sub) (c # s)"
      by simp
    then show ?thesis by blast
  next
    case False
    with Cons.prems have "Contains s sub" by simp
    from Cons.IH [OF this] obtain pre post where "s = pre @ sub @ post" by blast
    then have "c # s = (c # pre) @ sub @ post" by simp
    then show ?thesis by blast
  qed
qed

lemma Contains_iff: "Contains s sub \<longleftrightarrow> (\<exists>pre post. s = pre @ sub @ post)"
  using Contains_split Contains_append by blast

text \<open>A format without a percent sign is copied; the unused operand is reported.\<close>

lemma doPrintf_plain:
  "CHR ''%'' \<notin> set s \<Longrightarrow>
     doPrintf s a used = Some (s @ (if used then [] else ''%!(EXTRA int='' @ Itoa a @ '')''))"
  by (induction s a used rule: doPrintf.induct) auto

text \<open>The first placeholder of a format: the operand when it is still there.\<close>

lemma doPrintf_first_placeholder:
  "CHR ''%'' \<notin> set pre \<Longrightarrow>
     doPrintf (pre @ ''%d'' @ rest) a used =
       map_option (\<lambda>r. pre @ (if used then ''%!d(MISSING)'' else Itoa a) @ r) (doPrintf rest a True)"
proof (induction pre)
  case Nil
  show ?case by (simp add: option.map_comp comp_def)
next
  case (Cons c pre)
  show ?case
  proof (cases pre)
    case Nil
    then show ?thesis using Cons.prems by (auto simp: option.map_comp comp_def)
  next
    case (Cons v vs)
    then show ?thesis using Cons.IH Cons.prems by (auto simp: option.map_comp comp_def)
  qed
qed

lemma replace_every_placeholder_plain:
  "CHR ''%'' \<notin> set s \<Longrightarrow> replace_every_placeholder s p = s"
  by (induction s p rule: replace_every_placeholder.induct) auto

lemma replace_every_placeholder_first:
  "CHR ''%'' \<notin> set pre \<Longrightarrow>
     replace_every_placeholder (pre @ ''%d'' @ rest) p = pre @ p @ replace_every_placeholder rest p"
proof (induction pre)
  case Nil
  show ?case by simp
next
  case (Cons c pre)
  show ?case
  proof (cases pre)
    case Nil
    then show ?thesis using Cons.prems by auto
  next
    case (Cons v vs)
    then show ?thesis using Cons.IH Cons.prems by auto
  qed
qed

text \<open>
  Two placeholders, with no other percent sign: \<^verbatim>\<open>Sprintf\<close> has one operand, so the second
  placeholder comes out as \<^verbatim>\<open>%!d(MISSING)\<close>.
\<close>

lemma getFormattedCommand_two_placeholders:
  assumes "command u = pre @ ''%d'' @ mid @ ''%d'' @ post"
    and "CHR ''%'' \<notin> set pre" and "CHR ''%'' \<notin> set mid" and "CHR ''%'' \<notin> set post"
  shows "getFormattedCommand other u = pre @ Itoa (port u) @ mid @ ''%!d(MISSING)'' @ post"
proof -
  have "Contains (command u) ''%d''"
    using Contains_append [of pre "''%d''" "mid @ ''%d'' @ post"] assms(1) by simp
  moreover have "doPrintf (mid @ ''%d'' @ post) (port u) True = Some (mid @ ''%!d(MISSING)'' @ post)"
    using assms(3,4) doPrintf_first_placeholder [of mid post "port u" True]
    by (simp add: doPrintf_plain)
  then have "doPrintf (command u) (port u) False
               = Some (pre @ Itoa (port u) @ mid @ ''%!d(MISSING)'' @ post)"
    using assms(1,2) doPrintf_first_placeholder [of pre "mid @ ''%d'' @ post" "port u" False]
    by simp
  ultimately show ?thesis
    by (simp add: getFormattedCommand_def Sprintf_def)
qed

subsection \<open>The command line\<close>

text \<open>
  Against claim C7 as stated: with the template \<^verbatim>\<open>serve %d --admin %d\<close> and port 8080 the
  shell receives \<^verbatim>\<open>serve 8080 --admin %!d(MISSING)\<close>, where substituting every occurrence
  gives \<^verbatim>\<open>serve 8080 --admin 8080\<close>.
\<close>

theorem second_placeholder_not_substituted:
  "getFormattedCommand no_other (stopped_process\<lparr>command := ''serve %d --admin %d''\<rparr>)
     = ''serve 8080 --admin %!d(MISSING)''
   \<and> replace_every_placeholder (command (stopped_process\<lparr>command := ''serve %d --admin %d''\<rparr>))
         (Itoa (port (stopped_process\<lparr>command := ''serve %d --admin %d''\<rparr>)))
     = ''serve 8080 --admin 8080''
   \<and> getFormattedCommand no_other (stopped_process\<lparr>command := ''serve %d --admin %d''\<rparr>)
     \<noteq> replace_every_placeholder (command (stopped_process\<lparr>command := ''serve %d --admin %d''\<rparr>))
         (Itoa (port (stopped_process\<lparr>command := ''serve %d --admin %d''\<rparr>)))"
  by (simp add: model_defs sample_defs)

text \<open>
  Claim C7, amended. A template without a placeholder is passed to the shell unchanged.
  A template whose only percent sign is that of one placeholder is passed with the
  placeholder replaced by the port in decimal, which is what replacing every occurrence
  gives for it.
\<close>

theorem placeholder_substitution:
  "(\<not> Contains (command u) ''%d'' \<longrightarrow> getFormattedCommand other u = command u)
   \<and> (command u = pre @ ''%d'' @ post \<and> CHR ''%'' \<notin> set pre \<and> CHR ''%'' \<notin> set post \<longrightarrow>
        getFormattedCommand other u = pre @ Itoa (port u) @ post
        \<and> getFormattedCommand other u = replace_every_placeholder (command u) (Itoa (port u)))"
proof (intro conjI impI)
  assume "\<not> Contains (command u) ''%d''"
  then show "getFormattedCommand other u = command u"
    by (simp add: getFormattedCommand_def)
next
  assume h: "command u = pre @ ''%d'' @ post \<and> CHR ''%'' \<notin> set pre \<and> CHR ''%'' \<notin> set post"
  have c: "Contains (command u) ''%d''"
    using Contains_append [of pre "''%d''" post] h by simp
  have "doPrintf (command u) (port u) False = Some (pre @ Itoa (port u) @ post)"
    using h doPrintf_first_placeholder [of pre post "port u" False]
    by (simp add: doPrintf_plain)
  with c show r: "getFormattedCommand other u = pre @ Itoa (port u) @ post"
    by (simp add: getFormattedCommand_def Sprintf_def)
  have "replace_every_placeholder (command u) (Itoa (port u)) = pre @ Itoa (port u) @ post"
    using h replace_every_placeholder_first [of pre post "Itoa (port u)"]
    by (simp add: replace_every_placeholder_plain)
  with r show "getFormattedCommand other u = replace_every_placeholder (command u) (Itoa (port u))"
    by simp
qed

theorem placeholder_substitution_witness:
  "(\<not> Contains (command (stopped_process\<lparr>command := ''serve --http :9000''\<rparr>)) ''%d''
    \<and> getFormattedCommand no_other (stopped_process\<lparr>command := ''serve --http :9000''\<rparr>)
        = ''serve --http :9000'')
   \<and> (command stopped_process = ''serve --http :'' @ ''%d'' @ []
      \<and> CHR ''%'' \<notin> set ''serve --http :'' \<and> CHR ''%'' \<notin> set []
      \<and> getFormattedCommand no_other stopped_process = ''serve --http :8080'')"
proof -
  have n: "\<not> Contains (command (stopped_process\<lparr>command := ''serve --http :9000''\<rparr>)) ''%d''"
    by (simp add: has_prefix_def)
  have h: "command stopped_process = ''serve --http :'' @ ''%d'' @ []
           \<and> CHR ''%'' \<notin> set ''serve --http :'' \<and> CHR ''%'' \<notin> set []"
    by (simp add: stopped_process_def NewUpstreamProcess_def)
  have p: "port stopped_process = 8080"
    by (simp add: stopped_process_def NewUpstreamProcess_def)
  have i: "Itoa 8080 = ''8080''"
    by (simp add: Itoa_def digits.simps digit_char_def)
  show ?thesis
    using placeholder_substitution
            [of "stopped_process\<lparr>command := ''serve --http :9000''\<rparr>" no_other "[]" "[]"]
          placeholder_substitution [of stopped_process no_other "''serve --http :''" "[]"]
          n h p i
    by simp
qed

subsection \<open>Requests while the process runs\<close>

text \<open>
  Claim C9. A request that finds the handle present goes through \<^verbatim>\<open>Start\<close> without any
  effect, so no second process is spawned and the handle stays the one it was; it records
  the activity at the time of the request and answers with the address of the current
  port.
\<close>

theorem running_fast_path:
  assumes "upstreamProcess m = Some u" and "IsRunning u"
  shows "GetUpstreams other w m =
           (Inr [\<lparr>Dial = JoinHostPort ''localhost'' (Itoa (port u))\<rparr>],
            m\<lparr>upstreamProcess := Some (u\<lparr>lastActivity := now w\<rparr>)\<rparr>, [])"
  using assms by (simp add: GetUpstreams_def Start_def GetPort_def LogActivity_def)

theorem running_fast_path_witness:
  "upstreamProcess (fixed_config\<lparr>upstreamProcess := Some running_process\<rparr>) = Some running_process
   \<and> IsRunning running_process
   \<and> GetUpstreams no_other calm (fixed_config\<lparr>upstreamProcess := Some running_process\<rparr>) =
       (Inr [\<lparr>Dial = ''localhost:8080''\<rparr>],
        fixed_config\<lparr>upstreamProcess := Some (running_process\<lparr>lastActivity := one_second\<rparr>)\<rparr>, [])"
proof -
  have h1: "upstreamProcess (fixed_config\<lparr>upstreamProcess := Some running_process\<rparr>)
              = Some running_process"
    by simp
  have h2: "IsRunning running_process"
    by (simp add: IsRunning_def running_process_def)
  have p: "JoinHostPort ''localhost'' (Itoa (port running_process)) = ''localhost:8080''"
    by (simp add: model_defs sample_defs)
  have t: "now calm = one_second"
    by (simp add: calm_def)
  show ?thesis
    using running_fast_path [OF h1 h2, of no_other calm] h1 h2 p t by simp
qed

subsection \<open>A spawn that succeeds\<close>

text \<open>
  With the port known and a startup delay configured, a successful \<^verbatim>\<open>Start\<close> spawns, sleeps
  for the delay, records the activity and launches the monitor, in this order, before it
  returns.
\<close>

lemma Start_success_waits:
  assumes "\<not> IsRunning u" and "port u \<noteq> - 1" and "start_result w = None"
    and "0 < startupDelay u"
  shows "Start other w u =
           (None,
            u\<lparr>cmd := Some (exec_Command (getFormattedCommand other u) u
                              \<lparr>Process := Some (new_pid w)\<rparr>),
              lastActivity := now_started w\<rparr>,
            [Spawn (exec_Command (getFormattedCommand other u) u), Sleep (startupDelay u),
             GoIdleMonitor])"
  using assms by (simp add: Start_def Start_spawn_def LogActivity_def Let_def)

subsection \<open>A spawn that fails\<close>

text \<open>
  \<^verbatim>\<open>Start\<close> assigns \<^verbatim>\<open>u.cmd\<close> before it calls \<^verbatim>\<open>cmd.Start()\<close> and returns the error without
  clearing it: the handle is left in place, with no process behind it.
\<close>

lemma Start_failed_spawn:
  assumes "\<not> IsRunning u" and "port u \<noteq> - 1" and "start_result w = Some e"
  shows "\<exists>u' fx h. Start other w u = (Some e, u', fx) \<and> IsRunning u'
                    \<and> cmd u' = Some h \<and> Process h = None"
  using assms by (simp add: Start_def Start_spawn_def IsRunning_def exec_Command_def Let_def)

text \<open>
  Claim C1 at a failing input: a stopped process with the fixed port 8080 whose spawn fails.
  \<^verbatim>\<open>Start\<close> returns the error, but the handle is left in place: \<^verbatim>\<open>IsRunning\<close> holds of the
  receiver, and the next \<^verbatim>\<open>Start\<close>, in a world where the spawn would succeed, returns at
  once and spawns nothing.
\<close>

theorem failed_spawn_keeps_handle:
  "Start no_other spawn_fails stopped_process =
     (Some (Err ''exec: not found''), failed_process, [Spawn sh8080])
   \<and> IsRunning failed_process
   \<and> Start no_other calm failed_process = (None, failed_process, [])"
  by (simp add: model_defs sample_defs)

text \<open>
  Claim C2 at a failing input: the first request of the fixed-port configuration, with a
  spawn that fails. \<^verbatim>\<open>GetUpstreams\<close> drops the error of \<^verbatim>\<open>Start\<close>, finds the handle present
  and answers with the dial address.
\<close>

theorem dial_address_after_failed_spawn:
  "GetUpstreams no_other spawn_fails fixed_config =
     (Inr [\<lparr>Dial = ''localhost:8080''\<rparr>],
      fixed_config\<lparr>upstreamProcess := Some (failed_process\<lparr>lastActivity := one_second\<rparr>)\<rparr>,
      [Spawn sh8080])"
  by (simp add: model_defs sample_defs)

subsection \<open>Stopping\<close>

text \<open>When the signal is not delivered, \<^verbatim>\<open>Stop\<close> changes nothing and waits for nothing.\<close>

lemma Stop_undelivered_signal:
  assumes "cmd u = Some h" and "Process h = Some p" and "signal_result w = Some e"
  shows "Stop w u = Inr (u, [SignalInterrupt])"
  using assms by (simp add: Stop_def)

text \<open>
  Claim C3 at a failing input: a running process whose \<^verbatim>\<open>Signal\<close> call returns an error.
  \<^verbatim>\<open>Stop\<close> returns, but without \<^verbatim>\<open>cmd.Wait()\<close> and with the handle still present, so
  the supervisor still counts as running.
\<close>

theorem undelivered_signal_keeps_handle:
  "Stop signal_fails running_process = Inr (running_process, [SignalInterrupt])
   \<and> IsRunning (fst (projr (Stop signal_fails running_process)))
   \<and> Wait (wait_result signal_fails) \<notin> set (snd (projr (Stop signal_fails running_process)))"
  by (simp add: model_defs sample_defs)

text \<open>
  \<^verbatim>\<open>Stop\<close> on the handle that a failed spawn leaves behind calls \<^verbatim>\<open>Signal\<close> through the nil
  \<^verbatim>\<open>Process\<close>.
\<close>

lemma Stop_without_process:
  assumes "cmd u = Some h" and "Process h = None"
  shows "Stop w u = Inl NilPointerDereference"
  using assms by (simp add: Stop_def)

text \<open>
  With a started process and a delivered signal, \<^verbatim>\<open>Stop\<close> drops whatever \<^verbatim>\<open>cmd.Wait()\<close>
  returns and clears the handle.
\<close>

lemma Stop_drops_wait_result:
  assumes "cmd u = Some h" and "Process h = Some p" and "signal_result w = None"
  shows "\<exists>fx. Stop w u = Inr (u\<lparr>cmd := None\<rparr>, fx) \<and> Wait (wait_result w) \<in> set fx"
  using assms by (simp add: Stop_def)

text \<open>
  The grace-period goroutine that has found the handle present and comes to
  \<^verbatim>\<open>u.cmd.Process.Kill()\<close> after \<^verbatim>\<open>Stop\<close> has cleared the handle calls through nil.
\<close>

lemma grace_kill_after_clear: "grace_kill (u\<lparr>cmd := None\<rparr>) = Inl NilPointerDereference"
  by (simp add: grace_kill_def)

text \<open>
  The same goroutine, when a later \<^verbatim>\<open>Start\<close> has put a new handle in the record before it
  comes to \<^verbatim>\<open>Kill\<close>, kills the new process: here the process 4243 of the second request is
  killed by the goroutine of the \<^verbatim>\<open>Stop\<close> that ended process 4242, and the handle stays.
\<close>

lemma grace_goroutine_kills_later_process:
  "effects (run no_other [Request calm, Shutdown wait_fails_racing,
                          Request (calm\<lparr>new_pid := 4243\<rparr>), Grace 0] (initial fixed_config))
     = [Spawn sh8080, Sleep one_second, GoIdleMonitor,
        SignalInterrupt, GoGraceKill 0, Wait (Some (Err ''signal: interrupt'')), Kill,
        Spawn sh8080, Sleep one_second, GoIdleMonitor,
        GraceKill 4243]
   \<and> running (run no_other [Request calm, Shutdown wait_fails_racing,
                            Request (calm\<lparr>new_pid := 4243\<rparr>), Grace 0] (initial fixed_config))"
  by (simp add: model_defs sample_defs)


subsection \<open>The idle-timeout goroutine\<close>

text \<open>
  With an idle timeout that is not positive and a clock that has not gone back since the
  last activity, a pass through the loop body calls \<^verbatim>\<open>Stop\<close> and leaves the loop.
\<close>

lemma idle_tick_without_timeout:
  assumes "idleTimeout u \<le> 0" and "lastActivity u \<le> now w"
  shows "idle_tick w u = (case Stop w u of Inl p \<Rightarrow> Inl p | Inr (u', fx) \<Rightarrow> Inr (Break, u', fx))"
  using assms by (simp add: idle_tick_def)

text \<open>
  Claim C4 at a failing input: the configuration with \<^verbatim>\<open>idle_timeout\<close> \<open>- 1\<close>, which
  \<^verbatim>\<open>Validate\<close> accepts and keeps. The first request starts the process; the first tick of
  the goroutine, one second later, stops it and ends the goroutine.
\<close>

theorem disabled_idle_timeout_stops_at_first_tick:
  "Validate never_idle_config = (None, never_idle_config)
   \<and> running (run no_other [Request calm] (initial never_idle_config))
   \<and> \<not> running (run no_other [Request calm, Tick 0 (calm\<lparr>now := 2 * one_second\<rparr>)]
                    (initial never_idle_config))
   \<and> monitors (run no_other [Request calm, Tick 0 (calm\<lparr>now := 2 * one_second\<rparr>)]
                    (initial never_idle_config)) = [\<lparr>in_loop = False, stop_calls = 1\<rparr>]
   \<and> effects (run no_other [Request calm, Tick 0 (calm\<lparr>now := 2 * one_second\<rparr>)]
                    (initial never_idle_config))
       = [Spawn sh8080, Sleep one_second, GoIdleMonitor,
          SignalInterrupt, GoGraceKill 0, Wait None, Kill]"
  by (simp add: model_defs sample_defs)

lemma step_one_shot:
  assumes "\<forall>g \<in> set (monitors s). one_shot g"
  shows "\<forall>g \<in> set (monitors (step other ev s)). one_shot g"
proof (cases "crashed s")
  case True
  then show ?thesis using assms by (simp add: step_def)
next
  case up: False
  show ?thesis
  proof (cases ev)
    case (Request w)
    then show ?thesis
      using assms up by (auto simp: step_def case_prod_beta Let_def one_shot_def)
  next
    case (Shutdown w)
    then show ?thesis
      using assms up by (cases "Cleanup w (plugin s)") (auto simp: step_def)
  next
    case (Grace j)
    then show ?thesis
      using assms up
      by (auto simp: step_def split: option.splits grace_pc.splits sum.splits)
  next
    case (Tick i w)
    show ?thesis
    proof (cases "i < length (monitors s) \<and> in_loop (monitors s ! i)")
      case False
      then show ?thesis using assms up by (auto simp: Tick step_def)
    next
      case True
      then have "one_shot (monitors s ! i)" using assms by simp
      with True have z: "stop_calls (monitors s ! i) = 0" by (simp add: one_shot_def)
      have n: "one_shot \<lparr>in_loop = False, stop_calls = Suc 0\<rparr>" by (simp add: one_shot_def)
      have u: "\<forall>g \<in> set ((monitors s)[i := \<lparr>in_loop = False, stop_calls = Suc 0\<rparr>]). one_shot g"
        using assms n
          set_update_subset_insert [of "monitors s" i "\<lparr>in_loop = False, stop_calls = Suc 0\<rparr>"]
        by auto
      show ?thesis
      proof (cases "upstreamProcess (plugin s)")
        case None
        then show ?thesis using assms up by (simp add: Tick step_def)
      next
        case (Some p)
        show ?thesis
        proof (cases "idle_tick w p")
          case (Inl e)
          then show ?thesis using u z True Some up by (simp add: Tick step_def)
        next
          case (Inr r)
          then show ?thesis
            using assms u z True Some up
            by (cases r; cases "fst r") (auto simp: Tick step_def)
        qed
      qed
    qed
  qed
qed

lemma run_one_shot:
  "\<forall>g \<in> set (monitors s). one_shot g \<Longrightarrow> \<forall>g \<in> set (monitors (run other evs s)). one_shot g"
proof (induction evs arbitrary: s)
  case Nil
  then show ?case by simp
next
  case (Cons ev evs)
  from Cons.IH [OF step_one_shot [OF Cons.prems, of other ev]] show ?case by simp
qed

text \<open>
  Against claim C5 as stated: the fixed-port configuration with its idle timeout of 300
  seconds. After a request and a \<^verbatim>\<open>Cleanup\<close> the process is stopped, and at its next tick
  the goroutine is still in its loop, in a program that is up.
\<close>

theorem monitor_outlives_shutdown:
  "monitors (run no_other [Request calm] (initial fixed_config))
     = [\<lparr>in_loop = True, stop_calls = 0\<rparr>]
   \<and> running (run no_other [Request calm] (initial fixed_config))
   \<and> \<not> running (run no_other [Request calm, Shutdown calm] (initial fixed_config))
   \<and> monitors (run no_other [Request calm, Shutdown calm, Tick 0 (calm\<lparr>now := 2 * one_second\<rparr>)]
                 (initial fixed_config)) = [\<lparr>in_loop = True, stop_calls = 0\<rparr>]
   \<and> \<not> running (run no_other [Request calm, Shutdown calm, Tick 0 (calm\<lparr>now := 2 * one_second\<rparr>)]
                 (initial fixed_config))
   \<and> crashed (run no_other [Request calm, Shutdown calm, Tick 0 (calm\<lparr>now := 2 * one_second\<rparr>)]
                 (initial fixed_config)) = False"
  by (simp add: model_defs sample_defs)

text \<open>
  Claim C5, amended. In every state the module reaches, each idle-timeout goroutine has
  either called \<^verbatim>\<open>Stop\<close> never and is in its loop, or called it once and has left the loop.
  A goroutine in its loop takes no notice of whether the process is running: a tick while
  the last activity plus the idle timeout is after the clock changes nothing, and the first
  tick at which it is not calls \<^verbatim>\<open>Stop\<close> (which does nothing to a stopped process) and ends
  the goroutine. The record afterwards is the one \<^verbatim>\<open>Stop\<close> returns, and the program is down
  afterwards exactly when that \<^verbatim>\<open>Stop\<close> panics. (In a program that is down already nothing
  ticks.)
\<close>

theorem idle_monitor_one_shot:
  assumes "s = run other evs (initial m)"
  shows "(\<forall>g \<in> set (monitors s). one_shot g)
       \<and> (\<forall>i w u. i < length (monitors s) \<and> in_loop (monitors s ! i)
                    \<and> upstreamProcess (plugin s) = Some u \<longrightarrow>
             (if crashed s \<or> now w < lastActivity u + idleTimeout u
              then step other (Tick i w) s = s
              else monitors (step other (Tick i w) s)
                     = (monitors s)[i := \<lparr>in_loop = False, stop_calls = 1\<rparr>]
                   \<and> upstreamProcess (plugin (step other (Tick i w) s))
                     = Some (case Stop w u of Inl p \<Rightarrow> u | Inr (u', fx) \<Rightarrow> u')
                   \<and> crashed (step other (Tick i w) s)
                     = (case Stop w u of Inl p \<Rightarrow> True | Inr r \<Rightarrow> False)))"
proof (intro conjI allI impI)
  have "\<forall>g \<in> set (monitors (initial m)). one_shot g"
    by (simp add: initial_def)
  then show inv: "\<forall>g \<in> set (monitors s). one_shot g"
    unfolding assms by (rule run_one_shot)
  fix i w u
  assume h: "i < length (monitors s) \<and> in_loop (monitors s ! i)
             \<and> upstreamProcess (plugin s) = Some u"
  then have "one_shot (monitors s ! i)" using inv by simp
  with h have z: "stop_calls (monitors s ! i) = 0" by (simp add: one_shot_def)
  show "if crashed s \<or> now w < lastActivity u + idleTimeout u
        then step other (Tick i w) s = s
        else monitors (step other (Tick i w) s)
               = (monitors s)[i := \<lparr>in_loop = False, stop_calls = 1\<rparr>]
             \<and> upstreamProcess (plugin (step other (Tick i w) s))
               = Some (case Stop w u of Inl p \<Rightarrow> u | Inr (u', fx) \<Rightarrow> u')
             \<and> crashed (step other (Tick i w) s)
               = (case Stop w u of Inl p \<Rightarrow> True | Inr r \<Rightarrow> False)"
    using h z by (cases "Stop w u") (auto simp: step_def idle_tick_def)
qed

theorem idle_monitor_one_shot_witness:
  "one_shot (monitors (run no_other [Request calm, Shutdown calm] (initial fixed_config)) ! 0)
   \<and> \<not> crashed (run no_other [Request calm, Shutdown calm] (initial fixed_config))
   \<and> 0 < length (monitors (run no_other [Request calm, Shutdown calm] (initial fixed_config)))
   \<and> in_loop (monitors (run no_other [Request calm, Shutdown calm] (initial fixed_config)) ! 0)
   \<and> upstreamProcess (plugin (run no_other [Request calm, Shutdown calm] (initial fixed_config)))
       = Some (stopped_process\<lparr>lastActivity := one_second\<rparr>)
   \<and> step no_other (Tick 0 (calm\<lparr>now := 2 * one_second\<rparr>))
        (run no_other [Request calm, Shutdown calm] (initial fixed_config))
       = run no_other [Request calm, Shutdown calm] (initial fixed_config)
   \<and> monitors (step no_other (Tick 0 (calm\<lparr>now := 400 * one_second\<rparr>))
        (run no_other [Request calm, Shutdown calm] (initial fixed_config)))
       = [\<lparr>in_loop = False, stop_calls = 1\<rparr>]
   \<and> upstreamProcess (plugin (step no_other (Tick 0 (calm\<lparr>now := 400 * one_second\<rparr>))
        (run no_other [Request calm, Shutdown calm] (initial fixed_config))))
       = Some (stopped_process\<lparr>lastActivity := one_second\<rparr>)
   \<and> crashed (step no_other (Tick 0 (calm\<lparr>now := 400 * one_second\<rparr>))
        (run no_other [Request calm, Shutdown calm] (initial fixed_config))) = False"
proof -
  define s where "s = run no_other [Request calm, Shutdown calm] (initial fixed_config)"
  define u where "u = stopped_process\<lparr>lastActivity := one_second\<rparr>"
  have e: "s = \<lparr>plugin = fixed_config\<lparr>upstreamProcess := Some u\<rparr>,
                 monitors = [\<lparr>in_loop = True, stop_calls = 0\<rparr>],
                 graces = [Sleeping], crashed = False,
                 effects = [Spawn sh8080, Sleep one_second, GoIdleMonitor,
                            SignalInterrupt, GoGraceKill 0, Wait None, Kill]\<rparr>"
    by (simp add: s_def u_def model_defs sample_defs)
  have h: "0 < length (monitors s) \<and> in_loop (monitors s ! 0)
           \<and> upstreamProcess (plugin s) = Some u"
    and up: "\<not> crashed s"
    by (simp_all add: e)
  have t1: "now (calm\<lparr>now := 2 * one_second\<rparr>) < lastActivity u + idleTimeout u"
    and t2: "\<not> now (calm\<lparr>now := 400 * one_second\<rparr>) < lastActivity u + idleTimeout u"
    by (simp_all add: u_def stopped_process_def NewUpstreamProcess_def one_second_def)
  have m: "(monitors s)[0 := \<lparr>in_loop = False, stop_calls = 1\<rparr>] = [\<lparr>in_loop = False, stop_calls = 1\<rparr>]"
    by (simp add: e)
  have st: "Stop (calm\<lparr>now := 400 * one_second\<rparr>) u = Inr (u, [])"
    by (simp add: Stop_def u_def stopped_process_def NewUpstreamProcess_def)
  from idle_monitor_one_shot [OF s_def]
  have a: "\<forall>g \<in> set (monitors s). one_shot g"
    and b: "\<And>i w u. i < length (monitors s) \<and> in_loop (monitors s ! i)
                    \<and> upstreamProcess (plugin s) = Some u \<Longrightarrow>
             (if crashed s \<or> now w < lastActivity u + idleTimeout u
              then step no_other (Tick i w) s = s
              else monitors (step no_other (Tick i w) s)
                     = (monitors s)[i := \<lparr>in_loop = False, stop_calls = 1\<rparr>]
                   \<and> upstreamProcess (plugin (step no_other (Tick i w) s))
                     = Some (case Stop w u of Inl p \<Rightarrow> u | Inr (u', fx) \<Rightarrow> u')
                   \<and> crashed (step no_other (Tick i w) s)
                     = (case Stop w u of Inl p \<Rightarrow> True | Inr r \<Rightarrow> False))"
    by blast+
  have "step no_other (Tick 0 (calm\<lparr>now := 2 * one_second\<rparr>)) s = s"
    using b [OF h, of "calm\<lparr>now := 2 * one_second\<rparr>"] t1 by simp
  moreover have "monitors (step no_other (Tick 0 (calm\<lparr>now := 400 * one_second\<rparr>)) s)
                   = [\<lparr>in_loop = False, stop_calls = 1\<rparr>]
                 \<and> upstreamProcess (plugin (step no_other (Tick 0 (calm\<lparr>now := 400 * one_second\<rparr>)) s))
                   = Some u
                 \<and> crashed (step no_other (Tick 0 (calm\<lparr>now := 400 * one_second\<rparr>)) s) = False"
    using b [OF h, of "calm\<lparr>now := 400 * one_second\<rparr>"] t2 m st up by simp
  moreover have "one_shot (monitors s ! 0)"
    using a h by simp
  ultimately show ?thesis
    using h up unfolding s_def u_def by blast
qed

subsection \<open>The port\<close>

lemma Start_spawn_keeps_port:
  "port (fst (snd (Start_spawn other w u fx))) = port u
   \<and> (AllocPort \<in> set (snd (snd (Start_spawn other w u fx))) \<longleftrightarrow> AllocPort \<in> set fx)"
  by (simp add: Start_spawn_def Let_def LogActivity_def split: option.split)

lemma Start_keeps_port:
  "port u \<noteq> - 1 \<Longrightarrow>
     port (fst (snd (Start other w u))) = port u \<and> AllocPort \<notin> set (snd (snd (Start other w u)))"
  using Start_spawn_keeps_port [of other w u "[]"] by (simp add: Start_def)

lemma Stop_keeps_port:
  "Stop w u = Inr (u', fx) \<Longrightarrow> port u' = port u \<and> AllocPort \<notin> set fx"
  by (auto simp: Stop_def split: option.splits if_splits)

lemma idle_tick_keeps_port:
  "idle_tick w u = Inr (l, u', fx) \<Longrightarrow> port u' = port u \<and> AllocPort \<notin> set fx"
  using Stop_keeps_port [of w u]
  by (auto simp: idle_tick_def split: if_splits sum.splits)

lemma grace_kill_no_alloc: "grace_kill u = Inr fx \<Longrightarrow> AllocPort \<notin> set fx"
  by (auto simp: grace_kill_def split: option.splits)

lemma GetUpstreams_keeps_port:
  assumes "port_in_use m \<noteq> - 1"
  shows "port_in_use (fst (snd (GetUpstreams other w m))) = port_in_use m
         \<and> AllocPort \<notin> set (snd (snd (GetUpstreams other w m)))"
proof -
  define u0 where "u0 = (case upstreamProcess m of
                  None \<Rightarrow> NewUpstreamProcess (Command m) (Port m) [] [] (StartupDelay m)
                            (IdleTimeout m) 0 (now_created w)
                | Some u \<Rightarrow> u)"
  have "port u0 = port_in_use m"
    by (simp add: u0_def port_in_use_def NewUpstreamProcess_def split: option.splits)
  then have k: "port (fst (snd (Start other w u0))) = port_in_use m
                \<and> AllocPort \<notin> set (snd (snd (Start other w u0)))"
    using Start_keeps_port [of u0 other w] assms by simp
  have g: "GetUpstreams other w m =
      (case Start other w u0 of (err, u1, fx) \<Rightarrow>
         if IsRunning u1 then
           (Inr [\<lparr>Dial = JoinHostPort ''localhost'' (Itoa (GetPort u1))\<rparr>],
            m\<lparr>upstreamProcess := Some (LogActivity (now w) u1)\<rparr>, fx)
         else (Inl (Err ''no upstreams available''), m\<lparr>upstreamProcess := Some u1\<rparr>, fx))"
    by (simp add: GetUpstreams_def u0_def Let_def)
  show ?thesis
    using k by (simp add: g port_in_use_def LogActivity_def case_prod_beta)
qed

lemma Cleanup_keeps_port:
  "Cleanup w m = Inr (r, m', fx) \<Longrightarrow> port_in_use m' = port_in_use m \<and> AllocPort \<notin> set fx"
  using Stop_keeps_port [of w]
  by (auto simp: Cleanup_def port_in_use_def split: option.splits if_splits sum.splits)

text \<open>
  Once the port in use is not \<open>- 1\<close>, no transition changes it or calls the allocator.
\<close>

lemma step_keeps_port:
  assumes "port_in_use (plugin s) \<noteq> - 1"
  shows "port_in_use (plugin (step other ev s)) = port_in_use (plugin s)
         \<and> (\<exists>fx. effects (step other ev s) = effects s @ fx \<and> AllocPort \<notin> set fx)"
proof (cases "crashed s")
  case True
  then show ?thesis by (simp add: step_def)
next
  case up: False
  show ?thesis
  proof (cases ev)
    case (Request w)
    show ?thesis
      using GetUpstreams_keeps_port [OF assms, of other w] up
      by (simp add: Request step_def case_prod_beta Let_def)
  next
    case (Shutdown w)
    show ?thesis
    proof (cases "Cleanup w (plugin s)")
      case (Inl e)
      then show ?thesis using up by (simp add: Shutdown step_def)
    next
      case (Inr r)
      then show ?thesis
        using up Cleanup_keeps_port [of w "plugin s" "fst r" "fst (snd r)" "snd (snd r)"]
        by (simp add: Shutdown step_def case_prod_beta)
    qed
  next
    case (Grace j)
    show ?thesis
    proof (cases "upstreamProcess (plugin s)")
      case None
      then show ?thesis using up by (simp add: Grace step_def)
    next
      case (Some u)
      then show ?thesis
        using up grace_kill_no_alloc [of u]
        by (auto simp: Grace step_def split: grace_pc.splits sum.splits)
    qed
  next
    case (Tick i w)
    show ?thesis
    proof (cases "upstreamProcess (plugin s)")
      case None
      then show ?thesis using up by (simp add: Tick step_def)
    next
      case (Some u)
      show ?thesis
      proof (cases "idle_tick w u")
        case (Inl e)
        then show ?thesis using up Some by (simp add: Tick step_def)
      next
        case (Inr r)
        then show ?thesis
          using up Some idle_tick_keeps_port [of w u "fst r" "fst (snd r)" "snd (snd r)"]
          by (cases r; cases "fst r") (auto simp: Tick step_def port_in_use_def)
      qed
    qed
  qed
qed

lemma run_keeps_port:
  assumes "port_in_use (plugin s) \<noteq> - 1"
  shows "port_in_use (plugin (run other evs s)) = port_in_use (plugin s)
         \<and> (\<exists>fx. effects (run other evs s) = effects s @ fx \<and> AllocPort \<notin> set fx)"
  using assms
proof (induction evs arbitrary: s)
  case Nil
  then show ?case by simp
next
  case (Cons ev evs)
  have st: "port_in_use (plugin (step other ev s)) = port_in_use (plugin s)"
    and "\<exists>fx. effects (step other ev s) = effects s @ fx \<and> AllocPort \<notin> set fx"
    using step_keeps_port [OF Cons.prems, of other ev] by simp_all
  then obtain fx where fx: "effects (step other ev s) = effects s @ fx" "AllocPort \<notin> set fx"
    by blast
  have ne: "port_in_use (plugin (step other ev s)) \<noteq> - 1"
    using st Cons.prems by simp
  from Cons.IH [OF ne] obtain fx' where fx':
    "effects (run other evs (step other ev s)) = effects (step other ev s) @ fx'"
    "AllocPort \<notin> set fx'"
    by blast
  have "effects (run other (ev # evs) s) = effects s @ (fx @ fx') \<and> AllocPort \<notin> set (fx @ fx')"
    using fx fx' by simp
  then have "\<exists>gx. effects (run other (ev # evs) s) = effects s @ gx \<and> AllocPort \<notin> set gx"
    by blast
  moreover have "port_in_use (plugin (run other (ev # evs) s)) = port_in_use (plugin s)"
    using Cons.IH [OF ne] st by simp
  ultimately show ?case by blast
qed

lemma step_keeps_record:
  assumes "upstreamProcess (plugin s) = Some u"
  shows "\<exists>u'. upstreamProcess (plugin (step other ev s)) = Some u'"
proof (cases "crashed s")
  case True
  then show ?thesis using assms by (simp add: step_def)
next
  case up: False
  show ?thesis
  proof (cases ev)
    case (Request w)
    then show ?thesis
      using up by (simp add: step_def GetUpstreams_def case_prod_beta Let_def)
  next
    case (Shutdown w)
    then show ?thesis
      using assms up
      by (auto simp: step_def Cleanup_def split: sum.splits if_splits)
  next
    case (Grace j)
    then show ?thesis
      using assms up by (auto simp: step_def split: grace_pc.splits sum.splits)
  next
    case (Tick i w)
    show ?thesis
    proof (cases "idle_tick w u")
      case (Inl e)
      then show ?thesis using assms up by (simp add: Tick step_def)
    next
      case (Inr r)
      then show ?thesis
        using assms up by (cases r; cases "fst r") (auto simp: Tick step_def)
    qed
  qed
qed

lemma run_keeps_record:
  "upstreamProcess (plugin s) = Some u \<Longrightarrow> \<exists>u'. upstreamProcess (plugin (run other evs s)) = Some u'"
proof (induction evs arbitrary: s u)
  case Nil
  then show ?case by simp
next
  case (Cons ev evs)
  from step_keeps_record [OF Cons.prems, of other ev]
  obtain u' where "upstreamProcess (plugin (step other ev s)) = Some u'" by blast
  from Cons.IH [OF this] show ?case by simp
qed

lemma getAvailablePort_nonneg: "getAvailablePort w = (p, None) \<Longrightarrow> 0 \<le> p"
  by (auto simp: getAvailablePort_def split: option.splits sum.splits)

text \<open>
  Claim C6. With the fixed port 9999 and a command without a placeholder, the first request,
  when the spawn succeeds, answers \<^verbatim>\<open>localhost:9999\<close>; it runs the command as it is
  written and does not call the port allocator. Nor does anything that follows: no run of
  the module from this configuration ever calls the allocator.
\<close>

theorem fixed_port_9999:
  assumes "Port m = 9999" and "upstreamProcess m = None"
    and "\<not> Contains (Command m) ''%d''" and "start_result w = None"
  shows "(\<exists>m' fx. GetUpstreams other w m = (Inr [\<lparr>Dial = ''localhost:9999''\<rparr>], m', fx)
            \<and> AllocPort \<notin> set fx
            \<and> Spawn \<lparr>Args = [''sh'', ''-c'', Command m], Dir = [], Env = [], Process = None\<rparr> \<in> set fx)
         \<and> (\<forall>evs. AllocPort \<notin> set (effects (run other evs (initial m))))"
proof
  have i: "Itoa 9999 = ''9999''"
    by (simp add: Itoa_def digits.simps digit_char_def)
  show "\<exists>m' fx. GetUpstreams other w m = (Inr [\<lparr>Dial = ''localhost:9999''\<rparr>], m', fx)
            \<and> AllocPort \<notin> set fx
            \<and> Spawn \<lparr>Args = [''sh'', ''-c'', Command m], Dir = [], Env = [], Process = None\<rparr> \<in> set fx"
    using assms
    by (simp add: GetUpstreams_def Start_def Start_spawn_def NewUpstreamProcess_def IsRunning_def
          GetPort_def LogActivity_def getFormattedCommand_def exec_Command_def JoinHostPort_def
          Let_def i)
  show "\<forall>evs. AllocPort \<notin> set (effects (run other evs (initial m)))"
  proof
    fix evs
    have "port_in_use (plugin (initial m)) \<noteq> - 1"
      using assms(1,2) by (simp add: port_in_use_def initial_def)
    from run_keeps_port [OF this, of other evs]
    show "AllocPort \<notin> set (effects (run other evs (initial m)))"
      by (auto simp: initial_def)
  qed
qed

theorem fixed_port_9999_witness:
  "Port plain_config = 9999 \<and> upstreamProcess plain_config = None
   \<and> \<not> Contains (Command plain_config) ''%d'' \<and> start_result calm = None
   \<and> fst (GetUpstreams no_other calm plain_config) = Inr [\<lparr>Dial = ''localhost:9999''\<rparr>]
   \<and> AllocPort \<notin> set (snd (snd (GetUpstreams no_other calm plain_config)))
   \<and> AllocPort \<notin> set (effects (run no_other [Request calm, Shutdown calm, Request calm]
                                    (initial plain_config)))"
proof -
  have h1: "Port plain_config = 9999" and h2: "upstreamProcess plain_config = None"
    and h3: "\<not> Contains (Command plain_config) ''%d''" and h4: "start_result calm = None"
    by (simp_all add: plain_config_def fixed_config_def calm_def has_prefix_def)
  have t: "(\<exists>m' fx. GetUpstreams no_other calm plain_config
                      = (Inr [\<lparr>Dial = ''localhost:9999''\<rparr>], m', fx)
            \<and> AllocPort \<notin> set fx
            \<and> Spawn \<lparr>Args = [''sh'', ''-c'', Command plain_config], Dir = [], Env = [],
                     Process = None\<rparr> \<in> set fx)
         \<and> (\<forall>evs. AllocPort \<notin> set (effects (run no_other evs (initial plain_config))))"
    using fixed_port_9999 [OF h1 h2 h3 h4] .
  then have a: "AllocPort \<notin> set (effects (run no_other [Request calm, Shutdown calm, Request calm]
                                    (initial plain_config)))"
    by blast
  from t have "fst (GetUpstreams no_other calm plain_config) = Inr [\<lparr>Dial = ''localhost:9999''\<rparr>]
     \<and> AllocPort \<notin> set (snd (snd (GetUpstreams no_other calm plain_config)))"
    by auto
  with a h1 h2 h3 h4 show ?thesis by blast
qed

text \<open>
  Claim C10. When \<^verbatim>\<open>Start\<close> finds the port \<open>- 1\<close> and succeeds, it has called the allocator
  and the port of the receiver is no longer \<open>- 1\<close>. From any state of the module that holds
  this process record, whatever requests, cleanups and ticks follow, the record keeps that
  port and the allocator is not called again.
\<close>

theorem automatic_port_is_sticky:
  assumes "port u = - 1" and "\<not> IsRunning u" and "Start other w u = (None, u1, fx)"
    and "upstreamProcess (plugin s) = Some u1"
  shows "AllocPort \<in> set fx \<and> port u1 \<noteq> - 1
         \<and> (\<exists>u' fx'. upstreamProcess (plugin (run other evs s)) = Some u' \<and> port u' = port u1
               \<and> effects (run other evs s) = effects s @ fx' \<and> AllocPort \<notin> set fx')"
proof -
  obtain p where p: "getAvailablePort w = (p, None)"
    and sp: "Start_spawn other w (u\<lparr>port := p\<rparr>) [AllocPort] = (None, u1, fx)"
    using assms(1-3) by (cases "getAvailablePort w") (auto simp: Start_def split: option.splits)
  have u1: "port u1 = p" and a: "AllocPort \<in> set fx"
    using Start_spawn_keeps_port [of other w "u\<lparr>port := p\<rparr>" "[AllocPort]"] sp by simp_all
  have ne: "port u1 \<noteq> - 1"
    using getAvailablePort_nonneg [OF p] u1 by simp
  then have "port_in_use (plugin s) \<noteq> - 1"
    using assms(4) by (simp add: port_in_use_def)
  from run_keeps_port [OF this, of other evs] obtain fx' where
    k: "port_in_use (plugin (run other evs s)) = port_in_use (plugin s)"
       "effects (run other evs s) = effects s @ fx'" "AllocPort \<notin> set fx'"
    by blast
  obtain u' where u': "upstreamProcess (plugin (run other evs s)) = Some u'"
    using run_keeps_record [OF assms(4), of other evs] by blast
  then have "port u' = port u1"
    using k(1) assms(4) by (simp add: port_in_use_def)
  with a ne u' k(2,3) show ?thesis by blast
qed

theorem automatic_port_is_sticky_witness:
  "port (stopped_process\<lparr>port := - 1\<rparr>) = - 1
   \<and> \<not> IsRunning (stopped_process\<lparr>port := - 1\<rparr>)
   \<and> Start no_other calm (stopped_process\<lparr>port := - 1\<rparr>) =
       (None, auto_started,
        [AllocPort, Spawn sh40000, Sleep one_second, GoIdleMonitor])
   \<and> upstreamProcess (plugin (run no_other [Request calm] (initial auto_config))) = Some auto_started
   \<and> port auto_started = 40000
   \<and> (\<exists>u' fx'.
        upstreamProcess (plugin (run no_other [Shutdown calm, Request calm]
                                   (run no_other [Request calm] (initial auto_config)))) = Some u'
        \<and> port u' = 40000
        \<and> effects (run no_other [Shutdown calm, Request calm]
                      (run no_other [Request calm] (initial auto_config)))
            = effects (run no_other [Request calm] (initial auto_config)) @ fx'
        \<and> AllocPort \<notin> set fx')"
proof -
  have h1: "port (stopped_process\<lparr>port := - 1\<rparr>) = - 1"
    by simp
  have h2: "\<not> IsRunning (stopped_process\<lparr>port := - 1\<rparr>)"
    by (simp add: model_defs sample_defs)
  have h3: "Start no_other calm (stopped_process\<lparr>port := - 1\<rparr>) =
       (None, auto_started,
        [AllocPort, Spawn sh40000, Sleep one_second, GoIdleMonitor])"
    by (simp add: model_defs sample_defs)
  have h4: "upstreamProcess (plugin (run no_other [Request calm] (initial auto_config)))
              = Some auto_started"
    by (simp add: model_defs sample_defs)
  have p: "port auto_started = 40000"
    by (simp add: auto_started_def)
  show ?thesis
    using automatic_port_is_sticky [OF h1 h2 h3 h4, where evs = "[Shutdown calm, Request calm]"]
          h1 h2 h3 h4 p
    by (simp del: run.simps)
qed

end
